theory Spec2Isabelle
  imports Complex_Main
begin

section \<open>Strings\<close>

text \<open>
  A Python \<^verbatim>\<open>str\<close> is a sequence of Unicode code points, and \<^verbatim>\<open>len\<close>,
  \<^verbatim>\<open>in\<close> and \<^verbatim>\<open>strip\<close> work on code points. The scrapers use characters far
  outside one byte (emoji, U+202F), so a string is modelled as the list of its code
  points; \<open>str\<close> turns an ASCII literal into that form.
\<close>

type_synonym pystr = "nat list"

abbreviation (input) str :: "string \<Rightarrow> pystr" where
  "str s \<equiv> map of_char s"

datatype py_error = IndexError

section \<open>Python string operations\<close>

definition LF :: nat where "LF = 10"
definition CR :: nat where "CR = 13"

text \<open>The code points for which \<^verbatim>\<open>str.isspace\<close> holds.\<close>

definition isspace :: "nat \<Rightarrow> bool" where
  "isspace c \<longleftrightarrow> c \<in> set [9, 10, 11, 12, 13, 28, 29, 30, 31, 32, 133, 160, 5760,
     8192, 8193, 8194, 8195, 8196, 8197, 8198, 8199, 8200, 8201, 8202,
     8232, 8233, 8239, 8287, 12288]"

definition lstrip :: "pystr \<Rightarrow> pystr" where
  "lstrip s = dropWhile isspace s"

definition rstrip :: "pystr \<Rightarrow> pystr" where
  "rstrip s = rev (dropWhile isspace (rev s))"

definition strip :: "pystr \<Rightarrow> pystr" where
  "strip s = lstrip (rstrip s)"

fun startswith :: "pystr \<Rightarrow> pystr \<Rightarrow> bool" where
  "startswith s [] = True"
| "startswith [] (p # ps) = False"
| "startswith (c # cs) (p # ps) = (c = p \<and> startswith cs ps)"

text \<open>\<open>isin sub s\<close> is \<^verbatim>\<open>sub in s\<close>.\<close>

fun isin :: "pystr \<Rightarrow> pystr \<Rightarrow> bool" where
  "isin sub [] = (sub = [])"
| "isin sub (c # cs) = (startswith (c # cs) sub \<or> isin sub cs)"

text \<open>\<open>join sep xs\<close> is \<^verbatim>\<open>sep.join(xs)\<close>.\<close>

fun join :: "pystr \<Rightarrow> pystr list \<Rightarrow> pystr" where
  "join sep [] = []"
| "join sep [x] = x"
| "join sep (x # y # ys) = x @ sep @ join sep (y # ys)"

text \<open>\<open>split_char sep cur s\<close> is \<^verbatim>\<open>s.split(sep)\<close> for a one-character separator,
  with \<open>cur\<close> the part read so far.\<close>

fun split_char :: "nat \<Rightarrow> pystr \<Rightarrow> pystr \<Rightarrow> pystr list" where
  "split_char sep cur [] = [cur]"
| "split_char sep cur (c # cs) =
    (if c = sep then cur # split_char sep [] cs else split_char sep (cur @ [c]) cs)"

text \<open>\<^verbatim>\<open>s.split()\<close>: the maximal runs of non-whitespace characters.\<close>

fun split_ws :: "pystr \<Rightarrow> pystr \<Rightarrow> pystr list" where
  "split_ws cur [] = (if cur = [] then [] else [cur])"
| "split_ws cur (c # cs) =
    (if isspace c then (if cur = [] then split_ws [] cs else cur # split_ws [] cs)
     else split_ws (cur @ [c]) cs)"

definition replace_char :: "nat \<Rightarrow> nat \<Rightarrow> pystr \<Rightarrow> pystr" where
  "replace_char old new s = map (\<lambda>c. if c = old then new else c) s"



section \<open>Text files\<close>

text \<open>
  The file system maps a path to the text of the file, if it exists. The scrapers run
  with newline translation on reading (\<^verbatim>\<open>open(path, 'r')\<close>): \<^verbatim>\<open>\r\n\<close> and a
  lone \<^verbatim>\<open>\r\<close> arrive as \<^verbatim>\<open>\n\<close>. Writing is modelled for a platform whose line
  separator is \<^verbatim>\<open>\n\<close>, so written text is stored as it is.
\<close>

type_synonym filesystem = "pystr \<rightharpoonup> pystr"

fun universal_newlines :: "pystr \<Rightarrow> pystr" where
  "universal_newlines [] = []"
| "universal_newlines [c] = [if c = CR then LF else c]"
| "universal_newlines (c # d # cs) =
    (if c = CR \<and> d = LF then LF # universal_newlines cs
     else if c = CR then LF # universal_newlines (d # cs)
     else c # universal_newlines (d # cs))"

text \<open>The lines of a text, each with its terminating \<^verbatim>\<open>\n\<close> (the last one may lack it).\<close>

fun split_lines :: "pystr \<Rightarrow> pystr \<Rightarrow> pystr list" where
  "split_lines cur [] = (if cur = [] then [] else [cur])"
| "split_lines cur (c # cs) =
    (if c = LF then (cur @ [LF]) # split_lines [] cs else split_lines (cur @ [c]) cs)"

text \<open>Iterating over a file opened for reading in text mode.\<close>

definition file_lines :: "pystr \<Rightarrow> pystr list" where
  "file_lines data = split_lines [] (universal_newlines data)"

text \<open>\<^verbatim>\<open>f.readline()\<close> on a file opened with \<^verbatim>\<open>newline=''\<close>: the first line with its
  terminator untranslated; empty only at the end of the file.\<close>

fun readline :: "pystr \<Rightarrow> pystr" where
  "readline [] = []"
| "readline [c] = [c]"
| "readline (c # d # cs) =
    (if c = LF then [LF]
     else if c = CR then (if d = LF then [CR, LF] else [CR])
     else c # readline (d # cs))"

text \<open>Appending to a file creates it when it does not exist.\<close>

definition append_file :: "filesystem \<Rightarrow> pystr \<Rightarrow> pystr \<Rightarrow> filesystem" where
  "append_file fs path data =
    fs(path \<mapsto> (case fs path of None \<Rightarrow> [] | Some old \<Rightarrow> old) @ data)"

text \<open>
  \<^verbatim>\<open>csv.DictWriter(...).writeheader()\<close>: the field names joined by commas and ended
  by \<^verbatim>\<open>\r\n\<close>; with \<^verbatim>\<open>QUOTE_ALL\<close> every name stands in double quotes.
\<close>

definition fieldnames :: "pystr list" where
  "fieldnames = [str ''Title'', str ''Price'', str ''Condition'', str ''Description'',
                 str ''Post Date'', str ''URL'', str ''Scraped at'']"

definition writeheader :: "bool \<Rightarrow> pystr" where
  "writeheader quote_all =
    join (str '','') (map (\<lambda>f. if quote_all then [34] @ f @ [34] else f) fieldnames) @ [CR, LF]"

section \<open>avito\_scraper.py: RotatingSessionManager\<close>

text \<open>
  A \<^verbatim>\<open>requests.Session\<close> is represented by the headers that the constructor
  installs with \<^verbatim>\<open>session.headers.update\<close>, in the order of the dict literal.
\<close>

record session =
  headers :: "(pystr \<times> pystr) list"

definition user_agents :: "pystr list" where
  "user_agents =
    [str ''Mozilla/5.0 (Windows NT 10.0; Win64; x64) AppleWebKit/537.36 (KHTML, like Gecko) Chrome/120.0.0.0 Safari/537.36'',
     str ''Mozilla/5.0 (Macintosh; Intel Mac OS X 10_15_7) AppleWebKit/537.36 (KHTML, like Gecko) Chrome/120.0.0.0 Safari/537.36'',
     str ''Mozilla/5.0 (Windows NT 10.0; Win64; x64; rv:120.0) Gecko/20100101 Firefox/120.0'',
     str ''Mozilla/5.0 (Macintosh; Intel Mac OS X 10_15_7) AppleWebKit/605.1.15 (KHTML, like Gecko) Version/17.0 Safari/605.1.15'']"

definition new_session :: "pystr \<Rightarrow> session" where
  "new_session ua = \<lparr>headers =
    [(str ''User-Agent'', ua),
     (str ''Accept'', str ''text/html,application/xhtml+xml,application/xml;q=0.9,image/avif,image/webp,image/apng,*/*;q=0.8''),
     (str ''Accept-Language'', str ''fr-FR,fr;q=0.9,en-US;q=0.8,en;q=0.7''),
     (str ''DNT'', str ''1''),
     (str ''Connection'', str ''keep-alive''),
     (str ''Upgrade-Insecure-Requests'', str ''1''),
     (str ''Sec-Fetch-Dest'', str ''document''),
     (str ''Sec-Fetch-Mode'', str ''navigate''),
     (str ''Sec-Fetch-Site'', str ''none''),
     (str ''Sec-Fetch-User'', str ''?1''),
     (str ''Cache-Control'', str ''max-age=0'')]\<rparr>"

text \<open>The value of a session's \<^verbatim>\<open>User-Agent\<close> header.\<close>

definition user_agent :: "session \<Rightarrow> pystr option" where
  "user_agent s = map_of (headers s) (str ''User-Agent'')"

record session_manager =
  sessions :: "session list"
  current_session :: nat

text \<open>
  \<^verbatim>\<open>__init__(num_sessions)\<close>: \<^verbatim>\<open>for i in range(num_sessions)\<close> appends one
  session whose user agent is \<^verbatim>\<open>user_agents[i % len(user_agents)]\<close>. A count
  below one gives an empty range.
\<close>

definition RotatingSessionManager :: "int \<Rightarrow> session_manager" where
  "RotatingSessionManager num_sessions =
    \<lparr>sessions = map (\<lambda>i. new_session (user_agents ! (i mod length user_agents)))
                   [0..<nat num_sessions],
     current_session = 0\<rparr>"

text \<open>
  \<^verbatim>\<open>get_session\<close>: indexing an empty pool raises \<^verbatim>\<open>IndexError\<close> before the
  cursor is touched.
\<close>

definition get_session :: "session_manager \<Rightarrow> py_error + (session \<times> session_manager)" where
  "get_session m =
    (if current_session m < length (sessions m)
     then Inr (sessions m ! current_session m,
               m\<lparr>current_session := (current_session m + 1) mod length (sessions m)\<rparr>)
     else Inl IndexError)"

text \<open>The manager after \<open>k\<close> successive \<^verbatim>\<open>get_session\<close> calls.\<close>

primrec after_calls :: "nat \<Rightarrow> session_manager \<Rightarrow> py_error + session_manager" where
  "after_calls 0 m = Inr m"
| "after_calls (Suc k) m =
    (case get_session m of Inl e \<Rightarrow> Inl e | Inr (s, m') \<Rightarrow> after_calls k m')"

section \<open>avito\_scraper.py: SmartRateLimiter\<close>

text \<open>
  Delays are Python floats; they are modelled as reals, so \<open>0.9\<close>, \<open>2\<close> and
  \<open>1.2\<close> are the exact factors and rounding is left out. The two counters are
  Python integers.
\<close>

record rate_limiter =
  base_delay :: real
  max_delay :: real
  current_delay :: real
  success_count :: int
  error_count :: int

definition SmartRateLimiter :: "real \<Rightarrow> real \<Rightarrow> rate_limiter" where
  "SmartRateLimiter b m =
    \<lparr>base_delay = b, max_delay = m, current_delay = b, success_count = 0, error_count = 0\<rparr>"

definition record_success :: "rate_limiter \<Rightarrow> rate_limiter" where
  "record_success s =
    (let s1 = s\<lparr>success_count := success_count s + 1, error_count := 0\<rparr>
     in if success_count s1 \<ge> 15
        then s1\<lparr>current_delay := max (base_delay s1) (current_delay s1 * 0.9),
                success_count := 0\<rparr>
        else s1)"

text \<open>\<^verbatim>\<open>record_error(status_code=None)\<close>: the status code is optional.\<close>

definition record_error :: "int option \<Rightarrow> rate_limiter \<Rightarrow> rate_limiter" where
  "record_error status_code s =
    (let s1 = s\<lparr>error_count := error_count s + 1, success_count := 0\<rparr>
     in if status_code = Some 429
        then s1\<lparr>current_delay := min (max_delay s1) (current_delay s1 * 2)\<rparr>
        else if error_count s1 \<ge> 5
        then s1\<lparr>current_delay := min (max_delay s1) (current_delay s1 * 1.2)\<rparr>
        else s1)"

text \<open>A finite sequence of calls made on one limiter, oldest first.\<close>

datatype limiter_call = Record_success | Record_error "int option"

fun apply_call :: "rate_limiter \<Rightarrow> limiter_call \<Rightarrow> rate_limiter" where
  "apply_call s Record_success = record_success s"
| "apply_call s (Record_error status_code) = record_error status_code s"

definition run_calls :: "rate_limiter \<Rightarrow> limiter_call list \<Rightarrow> rate_limiter" where
  "run_calls s cs = foldl apply_call s cs"

section \<open>Parsed pages and the network\<close>

text \<open>
  Parsing with BeautifulSoup is outside the repository. A parsed document is
  represented by what the scrapers ask of it: \<^verbatim>\<open>select(selector)\<close>,
  \<^verbatim>\<open>find(name, class_)\<close> and \<^verbatim>\<open>find_all(names)\<close>; an element by its
  \<^verbatim>\<open>.text\<close>, its \<^verbatim>\<open>get_text(strip=True)\<close>, its
  \<^verbatim>\<open>get_text(separator=' ', strip=True)\<close> and its attributes.
\<close>

record element =
  el_text :: pystr
  el_get_text_strip :: pystr
  el_get_text_sep :: pystr
  el_attrs :: "pystr \<rightharpoonup> pystr"

record soup =
  soup_select :: "pystr \<Rightarrow> element list"
  soup_find :: "pystr \<Rightarrow> pystr option \<Rightarrow> element option"
  soup_find_all :: "pystr list \<Rightarrow> element list"

text \<open>\<^verbatim>\<open>select_one\<close> is the first element of \<^verbatim>\<open>select\<close>, if any.\<close>

definition select_one :: "soup \<Rightarrow> pystr \<Rightarrow> element option" where
  "select_one page selector =
    (case soup_select page selector of [] \<Rightarrow> None | e # _ \<Rightarrow> Some e)"

text \<open>
  A response is its status code and the parse of its text. The network is an oracle:
  the outcome of the \<open>k\<close>-th request of the run, made with a given session for a
  given URL, is a response or a \<^verbatim>\<open>RequestException\<close>.
\<close>

datatype response = Response (status_code: int) (parsed: soup)

datatype outcome = Got response | RequestException

type_synonym network = "nat \<Rightarrow> session \<Rightarrow> pystr \<Rightarrow> outcome"

section \<open>avito\_scraper.py: OptimizedAvitoScraper\<close>

text \<open>
  The object's fields, followed by the two parts of the environment it acts on: the
  file system and the log of the requests sent so far (oldest first). Sleeping and
  printing are not modelled.
\<close>

record scraper =
  base_url :: pystr
  category_name :: pystr
  filename :: pystr
  link_file :: pystr
  progress_file :: pystr
  session_manager :: session_manager
  rate_limiter :: rate_limiter
  max_workers :: int
  product_count :: int
  processed_urls :: "pystr set"
  files :: filesystem
  requests_made :: "pystr list"

definition load_progress :: "scraper \<Rightarrow> scraper" where
  "load_progress st =
    (case files st (progress_file st) of
       None \<Rightarrow> st
     | Some data \<Rightarrow> st\<lparr>processed_urls := set (map strip (file_lines data))\<rparr>)"

definition save_progress :: "pystr \<Rightarrow> scraper \<Rightarrow> scraper" where
  "save_progress url st =
    (if url \<notin> processed_urls st
     then st\<lparr>processed_urls := insert url (processed_urls st),
             files := append_file (files st) (progress_file st) (url @ [LF])\<rparr>
     else st)"

text \<open>\<^verbatim>\<open>__init__(base_url, category_name, max_workers=7)\<close>, run on a file system.\<close>

definition OptimizedAvitoScraper :: "pystr \<Rightarrow> pystr \<Rightarrow> int \<Rightarrow> filesystem \<Rightarrow> scraper" where
  "OptimizedAvitoScraper url name workers fs =
    (let st = load_progress
          \<lparr>base_url = url, category_name = name,
           filename = name @ str ''_products_from_avito.csv'',
           link_file = name @ str ''_links.txt'',
           progress_file = name @ str ''_progress.txt'',
           session_manager = RotatingSessionManager workers,
           rate_limiter = SmartRateLimiter 0.8 6.0,
           max_workers = workers, product_count = 0, processed_urls = {},
           files = fs, requests_made = []\<rparr>
     in if files st (filename st) = None
        then st\<lparr>files := (files st)(filename st \<mapsto> writeheader False)\<rparr>
        else st)"

text \<open>
  The retry loop of \<^verbatim>\<open>make_request\<close>, with \<open>n\<close> attempts left. Every attempt
  sends one request; only status 200 returns the response.
\<close>

fun attempts :: "network \<Rightarrow> session \<Rightarrow> pystr \<Rightarrow> nat \<Rightarrow> scraper \<Rightarrow> response option \<times> scraper" where
  "attempts net session url 0 st = (None, st)"
| "attempts net session url (Suc n) st =
    (let st1 = st\<lparr>requests_made := requests_made st @ [url]\<rparr> in
     case net (length (requests_made st)) session url of
       Got response \<Rightarrow>
         if status_code response = 200
         then (Some response, st1\<lparr>rate_limiter := record_success (rate_limiter st1)\<rparr>)
         else if status_code response = 429
         then attempts net session url n
                (st1\<lparr>rate_limiter := record_error (Some 429) (rate_limiter st1)\<rparr>)
         else attempts net session url n
                (st1\<lparr>rate_limiter :=
                   record_error (Some (status_code response)) (rate_limiter st1)\<rparr>)
     | RequestException \<Rightarrow>
         attempts net session url n
           (st1\<lparr>rate_limiter := record_error None (rate_limiter st1)\<rparr>))"

definition make_request :: "network \<Rightarrow> pystr \<Rightarrow> nat \<Rightarrow> scraper \<Rightarrow> py_error + (response option \<times> scraper)" where
  "make_request net url retries st =
    (case get_session (session_manager st) of
       Inl e \<Rightarrow> Inl e
     | Inr (session, m) \<Rightarrow> Inr (attempts net session url retries (st\<lparr>session_manager := m\<rparr>)))"

subsection \<open>Link collection\<close>









subsection \<open>Description extraction\<close>

text \<open>
  Two functions of the Python runtime are parameters of the model: \<^verbatim>\<open>str.upper\<close>
  (Unicode case mapping) and \<^verbatim>\<open>re.sub(pattern, repl, string, flags)\<close>.
\<close>

datatype re_flag = IGNORECASE | DOTALL

record pylib =
  str_upper :: "pystr \<Rightarrow> pystr"
  re_sub :: "pystr \<Rightarrow> pystr \<Rightarrow> pystr \<Rightarrow> re_flag list \<Rightarrow> pystr"

definition desc_selectors :: "pystr list" where
  \<open>desc_selectors =
    [str ''[data-testid="ad-description"]'',
     str ''div[data-testid="ad-description"]'',
     str ''.sc-1g3sn3w-12'',
     str ''.ad-description'',
     str ''div[class*="description"]'',
     str ''section[data-testid="ad-description"]'',
     str ''[class*="AdDescription"]'',
     str ''.description-content'',
     str ''div.sc-ij98yj-0'']\<close>

text \<open>The emoji of the first strategy, as code points (the flag is two of them).\<close>

definition strategy1_emojis :: "pystr list" where
  "strategy1_emojis =
    [[128308], [128205], [9889], [128267], [9989], [127474, 127462], [128230], [128666]]"

definition strategy1_specs :: "pystr list" where
  "strategy1_specs =
    [str ''PROCESSEUR'', str ''RAM'', str ''SSD'', str ''ECRAN'', str ''PRIX'',
     str ''LIVRAISON'', str ''INTEL'', str ''AMD'', str ''NVIDIA'']"

text \<open>The test of the first strategy on an element's text.\<close>

definition accepts :: "pylib \<Rightarrow> pystr \<Rightarrow> bool" where
  "accepts lib desc_text \<longleftrightarrow>
     length desc_text > 50 \<and>
     (list_ex (\<lambda>emoji. isin emoji desc_text) strategy1_emojis \<or>
      list_ex (\<lambda>spec. isin spec (str_upper lib desc_text)) strategy1_specs)"

text \<open>The inner loop over the elements of one selector, and the outer loop over the
  selectors; both stop at the first accepted text.\<close>

fun first_accepted :: "pylib \<Rightarrow> element list \<Rightarrow> pystr option" where
  "first_accepted lib [] = None"
| "first_accepted lib (element # elements) =
    (if accepts lib (el_get_text_strip element) then Some (el_get_text_strip element)
     else first_accepted lib elements)"

fun strategy1 :: "pylib \<Rightarrow> soup \<Rightarrow> pystr list \<Rightarrow> pystr option" where
  "strategy1 lib page [] = None"
| "strategy1 lib page (selector # rest) =
    (case first_accepted lib (soup_select page selector) of
       Some description \<Rightarrow> Some description
     | None \<Rightarrow> strategy1 lib page rest)"

definition emoji_indicators :: "pystr list" where
  "emoji_indicators =
    [[128308], [128205], [9889], [128267], [9989], [127474, 127462], [128230], [128666],
     [9742, 65039]]"

definition tech_specs :: "pystr list" where
  "tech_specs =
    [str ''PROCESSEUR'', str ''RAM'', str ''SSD'', str ''HDD'', str ''ECRAN'',
     str ''CARTE GRAPHIQUE'', str ''BATTERIE'', str ''INTEL'', str ''AMD'', str ''NVIDIA'']"

definition computer_terms :: "pystr list" where
  "computer_terms =
    [str ''RYZEN'', str ''CORE'', str ''DDR4'', str ''DDR5'', str ''NVME'', str ''FULL HD'',
     str ''4K'', str ''IPS'', str ''WINDOWS'', str ''OFFICE'']"

definition nav_elements :: "pystr list" where
  "nav_elements =
    [str ''ACCUEIL'', str ''SE CONNECTER'', str ''PUBLIER'', str ''TOUT LE MAROC'',
     str ''AVITO MARKET'']"

definition score :: "pylib \<Rightarrow> pystr \<Rightarrow> int" where
  "score lib div_text =
    (let up = str_upper lib div_text in
       2 * int (length (filter (\<lambda>emoji. isin emoji div_text) emoji_indicators))
     + 3 * int (length (filter (\<lambda>spec. isin (str_upper lib spec) up) tech_specs))
     + 1 * int (length (filter (\<lambda>term. isin (str_upper lib term) up) computer_terms))
     + (if isin (str ''PRIX'') up \<or> isin (str ''DH'') up then 2 else 0)
     + (if isin (str ''LIVRAISON'') up \<or> isin (str ''CONTACTEZ'') up then 1 else 0)
     - 5 * int (length (filter (\<lambda>nav. isin (str_upper lib nav) up) nav_elements)))"

text \<open>The loop of the second strategy, carrying \<^verbatim>\<open>best_candidate\<close> and
  \<^verbatim>\<open>best_score\<close>.\<close>

fun best_of :: "pylib \<Rightarrow> element list \<Rightarrow> pystr option \<times> int \<Rightarrow> pystr option \<times> int" where
  "best_of lib [] best = best"
| "best_of lib (d # divs) (best_candidate, best_score) =
    (let div_text = el_get_text_strip d in
     if length div_text < 50 \<or> length div_text > 2000
     then best_of lib divs (best_candidate, best_score)
     else if score lib div_text > best_score \<and> score lib div_text \<ge> 3
     then best_of lib divs (Some div_text, score lib div_text)
     else best_of lib divs (best_candidate, best_score))"

definition strategy2 :: "pylib \<Rightarrow> soup \<Rightarrow> pystr option" where
  "strategy2 lib page =
    (case fst (best_of lib (soup_find_all page [str ''div'', str ''section'', str ''article''])
                 (None, 0)) of
       None \<Rightarrow> None
     | Some best_candidate \<Rightarrow> if best_candidate \<noteq> [] then Some best_candidate else None)"

definition unwanted_patterns :: "pystr list" where
  "unwanted_patterns =
    [str ''.*?Avito'' @ [92] @ str ''.ma'' @ [92] @ str ''s*'',
     str ''Auto neuf.*?Publier une annonce.*?'',
     str ''.*?INFORMATIQUE ET MULTIMEDIA.*?Ordinateurs.*?'',
     str ''.*?Accueil.*?Avito Market.*?'']"

text \<open>The clean-up of a chosen description, and the final \<^verbatim>\<open>description or "N/A"\<close>.\<close>

definition clean_up :: "pylib \<Rightarrow> pystr \<Rightarrow> pystr" where
  "clean_up lib description =
    (let d1 = re_sub lib ([92] @ str ''s+'') (str '' '') description [];
         d2 = foldl (\<lambda>d pattern. re_sub lib pattern [] d [IGNORECASE, DOTALL]) d1 unwanted_patterns;
         d3 = strip d2
     in if length d3 > 800
        then (let core_lines = filter (\<lambda>line. length line > 10)
                                 (map strip (take 5 (split_char 46 [] d3)))
              in if core_lines \<noteq> [] then join (str ''. '') core_lines @ str ''.'' else d3)
        else d3)"

definition extract_description_improved :: "pylib \<Rightarrow> soup \<Rightarrow> pystr" where
  "extract_description_improved lib page =
    (let description =
           (case strategy1 lib page desc_selectors of
              Some d \<Rightarrow> Some d
            | None \<Rightarrow> strategy2 lib page);
         cleaned = (case description of
                      None \<Rightarrow> None
                    | Some d \<Rightarrow> if d \<noteq> [] then Some (clean_up lib d) else Some d)
     in case cleaned of
          None \<Rightarrow> str ''N/A''
        | Some d \<Rightarrow> if d \<noteq> [] then d else str ''N/A'')"

subsection \<open>Record extraction\<close>

record product =
  Title :: pystr
  Price :: pystr
  Condition :: pystr
  Description :: pystr
  Post_Date :: pystr
  URL :: pystr
  Scraped_at :: pystr

definition price_selectors :: "pystr list" where
  \<open>price_selectors =
    [str ''p.sc-1x0vz2r-0.sc-1veij0r-10'', str ''[data-testid='price']'', str ''.price'',
     str ''span[class*='price']'']\<close>

fun first_price :: "soup \<Rightarrow> pystr list \<Rightarrow> pystr" where
  "first_price page [] = str ''N/A''"
| "first_price page (selector # rest) =
    (case select_one page selector of
       Some price_tag \<Rightarrow> replace_char 8239 32 (strip (el_text price_tag))
     | None \<Rightarrow> first_price page rest)"

text \<open>The fields read from a parsed page; \<open>now\<close> is the formatted clock reading.\<close>

definition page_fields :: "pylib \<Rightarrow> pystr \<Rightarrow> pystr \<Rightarrow> soup \<Rightarrow> product" where
  "page_fields lib now url page =
    \<lparr>Title = (case soup_find page (str ''h1'') None of
                Some title_element \<Rightarrow> strip (el_text title_element)
              | None \<Rightarrow> str ''N/A''),
     Price = first_price page price_selectors,
     Condition = (case select_one page (str ''div.kuofIS span.fjZBup'') of
                    Some condition \<Rightarrow> strip (el_text condition)
                  | None \<Rightarrow> str ''Not specified''),
     Description = extract_description_improved lib page,
     Post_Date = (case select_one page (str ''span.iKguVF time'') of
                    Some post_date_tag \<Rightarrow>
                      (case el_attrs post_date_tag (str ''datetime'') of
                         Some post_date \<Rightarrow> post_date
                       | None \<Rightarrow> str ''N/A'')
                  | None \<Rightarrow> str ''N/A''),
     URL = url,
     Scraped_at = now\<rparr>"

definition extract_info ::
  "pylib \<Rightarrow> network \<Rightarrow> pystr \<Rightarrow> pystr \<Rightarrow> scraper \<Rightarrow> py_error + (product option \<times> scraper)" where
  "extract_info lib net now url st =
    (if url \<in> processed_urls st then Inr (None, st)
     else case make_request net url 3 st of
            Inl e \<Rightarrow> Inl e
          | Inr (None, st1) \<Rightarrow> Inr (None, st1)
          | Inr (Some response, st1) \<Rightarrow>
              Inr (Some (page_fields lib now url (parsed response)),
                   save_progress url (st1\<lparr>product_count := product_count st1 + 1\<rparr>)))"

section \<open>jumia\_scraper.py\<close>

definition write_header_if_needed :: "pystr \<Rightarrow> filesystem \<Rightarrow> filesystem" where
  "write_header_if_needed file_path fs =
    (case fs file_path of
       Some data \<Rightarrow> if readline data \<noteq> [] then fs else fs(file_path \<mapsto> writeheader True)
     | None \<Rightarrow> fs(file_path \<mapsto> writeheader True))"

text \<open>
  The record that \<^verbatim>\<open>scrape_single_product\<close> builds from a parsed product page;
  \<open>today\<close> and \<open>now\<close> are the two formatted clock readings.
\<close>

definition product_data :: "pystr \<Rightarrow> pystr \<Rightarrow> pystr \<Rightarrow> soup \<Rightarrow> product" where
  "product_data today now link page =
    (let title = (case soup_find page (str ''h1'') (Some (str ''-fs20 -pts -pbxs'')) of
                    Some title_elem \<Rightarrow> strip (el_text title_elem) | None \<Rightarrow> str ''N/A'');
         price = (case soup_find page (str ''span'') (Some (str ''-b -ubpt -tal -fs24 -prxs'')) of
                    Some price_elem \<Rightarrow> strip (el_text price_elem) | None \<Rightarrow> str ''N/A'');
         description =
           (case soup_find page (str ''div'') (Some (str ''markup -pam'')) of
              Some d \<Rightarrow>
                (let d1 = join (str '' '') (split_ws [] (el_get_text_sep d));
                     d2 = replace_char 9 32 (replace_char CR 32 (replace_char LF 32 d1))
                 in if length d2 > 500 then take 500 d2 @ str ''...'' else d2)
            | None \<Rightarrow> str ''N/A'')
     in \<lparr>Title = replace_char CR 32 (replace_char LF 32 title),
         Price = replace_char CR 32 (replace_char LF 32 price),
         Condition = str ''New'',
         Description = description,
         Post_Date = today,
         URL = link,
         Scraped_at = now\<rparr>)"

section \<open>Notions used in the statements\<close>



section \<open>Concrete inputs\<close>

text \<open>A page on which no selector matches anything.\<close>

definition empty_page :: soup where
  "empty_page = \<lparr>soup_select = (\<lambda>selector. []), soup_find = (\<lambda>name class. None),
                  soup_find_all = (\<lambda>names. [])\<rparr>"

text \<open>A network on which every request is answered with one status code and an empty
  page.\<close>

definition always :: "int \<Rightarrow> network" where
  "always code = (\<lambda>k session url. Got (Response code empty_page))"

text \<open>A freshly constructed scraper for the category \<^verbatim>\<open>desktop\<close> on an empty file
  system, with the 7 workers of the main program.\<close>

definition fresh_scraper :: scraper where
  "fresh_scraper =
    OptimizedAvitoScraper (str ''https://www.avito.ma/fr/maroc/ordinateurs_bureau'')
      (str ''desktop'') 7 Map.empty"

text \<open>
  A runtime for ASCII texts: \<open>str_upper\<close> maps the letters a to z to A to Z, as
  \<^verbatim>\<open>str.upper\<close> does on ASCII text, and \<open>re_sub\<close> returns the text unchanged, as
  \<^verbatim>\<open>re.sub\<close> does on the texts below: their whitespace is single spaces and none of
  the unwanted patterns occurs in them.
\<close>

definition ascii_lib :: pylib where
  "ascii_lib =
    \<lparr>str_upper = map (\<lambda>c. if 97 \<le> c \<and> c \<le> 122 then c - 32 else c),
     re_sub = (\<lambda>pattern repl s flags. s)\<rparr>"

text \<open>An advertisement text of exactly 50 characters that names a price, and the same
  text with a full stop added (51 characters).\<close>

definition text50 :: pystr where
  "text50 = str ''Ordinateur portable a vendre, prix a discuter vite''"

definition text51 :: pystr where
  "text51 = text50 @ str ''.''"

text \<open>A page whose only block is a \<^verbatim>\<open>div\<close> of class \<^verbatim>\<open>ad-description\<close> holding
  the given text.\<close>

definition ad_page :: "pystr \<Rightarrow> soup" where
  "ad_page t =
    (let e = \<lparr>el_text = t, el_get_text_strip = t, el_get_text_sep = t, el_attrs = Map.empty\<rparr>
     in \<lparr>soup_select = (\<lambda>selector. if selector = str ''.ad-description'' then [e] else []),
         soup_find = (\<lambda>name class. None),
         soup_find_all = (\<lambda>names. [e])\<rparr>)"

text \<open>A page whose only match is a \<^verbatim>\<open>time\<close> element without attributes, and the
  clock readings and the product URL used with the concrete pages.\<close>

definition undated_page :: soup where
  "undated_page =
    (let e = \<lparr>el_text = str ''hier'', el_get_text_strip = str ''hier'',
              el_get_text_sep = str ''hier'', el_attrs = Map.empty\<rparr>
     in \<lparr>soup_select = (\<lambda>selector. if selector = str ''span.iKguVF time'' then [e] else []),
         soup_find = (\<lambda>name class. None),
         soup_find_all = (\<lambda>names. [])\<rparr>)"

definition clock :: pystr where
  "clock = str ''2025-01-01 10:00:00''"

definition product_url :: pystr where
  "product_url = str ''https://www.avito.ma/fr/ordinateurs/pc_1234.htm''"






section \<open>Properties of the rate limiter\<close>

lemma record_success_bounds:
  "base_delay (record_success s) = base_delay s"
  "max_delay (record_success s) = max_delay s"
  by (simp_all add: record_success_def Let_def)

lemma record_error_bounds:
  "base_delay (record_error c s) = base_delay s"
  "max_delay (record_error c s) = max_delay s"
  by (simp_all add: record_error_def Let_def)

lemma record_success_within:
  assumes "0 \<le> base_delay s" "base_delay s \<le> current_delay s" "current_delay s \<le> max_delay s"
  shows "base_delay s \<le> current_delay (record_success s)"
    and "current_delay (record_success s) \<le> max_delay s"
proof -
  have "current_delay s * 0.9 \<le> current_delay s"
    using assms by simp
  with assms show "base_delay s \<le> current_delay (record_success s)"
    and "current_delay (record_success s) \<le> max_delay s"
    by (simp_all add: record_success_def Let_def)
qed

lemma record_error_within:
  assumes "0 \<le> base_delay s" "base_delay s \<le> current_delay s" "current_delay s \<le> max_delay s"
  shows "base_delay s \<le> current_delay (record_error c s)"
    and "current_delay (record_error c s) \<le> max_delay s"
proof -
  have "current_delay s \<le> current_delay s * 2" "current_delay s \<le> current_delay s * 1.2"
    using assms by simp_all
  with assms show "base_delay s \<le> current_delay (record_error c s)"
    and "current_delay (record_error c s) \<le> max_delay s"
    by (simp_all add: record_error_def Let_def)
qed

lemma apply_call_inv:
  assumes "0 \<le> base_delay s" "base_delay s \<le> current_delay s" "current_delay s \<le> max_delay s"
  shows "base_delay (apply_call s c) = base_delay s \<and> max_delay (apply_call s c) = max_delay s
       \<and> base_delay s \<le> current_delay (apply_call s c)
       \<and> current_delay (apply_call s c) \<le> max_delay s"
  using assms
  by (cases c)
     (simp_all add: record_success_bounds record_error_bounds
        record_success_within record_error_within)

lemma run_calls_inv:
  assumes "0 \<le> base_delay s" "base_delay s \<le> current_delay s" "current_delay s \<le> max_delay s"
  shows "base_delay (run_calls s cs) = base_delay s \<and> max_delay (run_calls s cs) = max_delay s
       \<and> base_delay s \<le> current_delay (run_calls s cs)
       \<and> current_delay (run_calls s cs) \<le> max_delay s"
  using assms unfolding run_calls_def
proof (induction cs arbitrary: s)
  case Nil
  then show ?case by simp
next
  case (Cons c cs)
  have step: "base_delay (apply_call s c) = base_delay s \<and> max_delay (apply_call s c) = max_delay s
       \<and> base_delay s \<le> current_delay (apply_call s c)
       \<and> current_delay (apply_call s c) \<le> max_delay s"
    using Cons.prems by (rule apply_call_inv)
  then have "base_delay (foldl apply_call (apply_call s c) cs) = base_delay (apply_call s c)
       \<and> max_delay (foldl apply_call (apply_call s c) cs) = max_delay (apply_call s c)
       \<and> base_delay (apply_call s c) \<le> current_delay (foldl apply_call (apply_call s c) cs)
       \<and> current_delay (foldl apply_call (apply_call s c) cs) \<le> max_delay (apply_call s c)"
    using Cons.prems by (intro Cons.IH) simp_all
  with step show ?case by simp
qed

text \<open>
  C1 (as amended). Starting from the initial state \<open>SmartRateLimiter b m\<close> with
  \<open>0 \<le> b \<le> m\<close>, after every finite sequence of \<open>record_success\<close> and
  \<open>record_error\<close> calls the floor and the ceiling are unchanged and the current
  delay lies in the closed interval between them.
\<close>

theorem delay_within_bounds:
  assumes "0 \<le> b" and "b \<le> m"
  shows "base_delay (run_calls (SmartRateLimiter b m) cs) = b
       \<and> max_delay (run_calls (SmartRateLimiter b m) cs) = m
       \<and> b \<le> current_delay (run_calls (SmartRateLimiter b m) cs)
       \<and> current_delay (run_calls (SmartRateLimiter b m) cs) \<le> m"
  using run_calls_inv [of "SmartRateLimiter b m" cs] assms
  by (simp add: SmartRateLimiter_def)

theorem delay_within_bounds_witness:
  "(0::real) \<le> 0.8 \<and> (0.8::real) \<le> 6
   \<and> 0.8 \<le> current_delay (run_calls (SmartRateLimiter 0.8 6)
        [Record_error (Some 429), Record_success, Record_error None])
   \<and> current_delay (run_calls (SmartRateLimiter 0.8 6)
        [Record_error (Some 429), Record_success, Record_error None]) \<le> 6
   \<and> current_delay (run_calls (SmartRateLimiter 0.8 6)
        [Record_error (Some 429), Record_success, Record_error None]) = 1.6"
  using delay_within_bounds [of "0.8" 6
      "[Record_error (Some 429), Record_success, Record_error None]"]
  by (simp add: run_calls_def SmartRateLimiter_def record_error_def record_success_def Let_def)

text \<open>
  With a negative floor the claim as stated (only \<open>floor \<le> ceiling\<close> assumed)
  fails: from \<open>SmartRateLimiter (-1) 6\<close> one rate-limited error doubles the delay
  to \<open>-2\<close>, below the floor.
\<close>

theorem delay_below_floor_counterexample:
  "(-1::real) \<le> 6
   \<and> current_delay (run_calls (SmartRateLimiter (-1) 6) [Record_error (Some 429)]) = -2
   \<and> current_delay (run_calls (SmartRateLimiter (-1) 6) [Record_error (Some 429)])
       < base_delay (run_calls (SmartRateLimiter (-1) 6) [Record_error (Some 429)])"
  by (simp add: run_calls_def SmartRateLimiter_def record_error_def Let_def)

lemma run_calls_append: "run_calls s (xs @ ys) = run_calls (run_calls s xs) ys"
  by (simp add: run_calls_def)

lemma run_calls_Cons: "run_calls s (c # cs) = run_calls (apply_call s c) cs"
  by (simp add: run_calls_def)

lemma run_calls_Nil: "run_calls s [] = s"
  by (simp add: run_calls_def)

lemma success_streak_below:
  "0 \<le> success_count s \<Longrightarrow> success_count s + int n < 15 \<Longrightarrow>
   current_delay (run_calls s (replicate n Record_success)) = current_delay s
   \<and> base_delay (run_calls s (replicate n Record_success)) = base_delay s
   \<and> success_count (run_calls s (replicate n Record_success)) = success_count s + int n"
proof (induction n arbitrary: s)
  case 0
  then show ?case by (simp add: run_calls_Nil)
next
  case (Suc n)
  let ?s1 = "record_success s"
  from Suc.prems have s1: "current_delay ?s1 = current_delay s" "base_delay ?s1 = base_delay s"
    "success_count ?s1 = success_count s + 1"
    by (simp_all add: record_success_def Let_def)
  with Suc.prems have "0 \<le> success_count ?s1" "success_count ?s1 + int n < 15"
    by simp_all
  from Suc.IH [OF this] s1 show ?case
    by (simp add: run_calls_Cons)
qed

lemma success_streak_error_count:
  "0 < n \<Longrightarrow> error_count (run_calls s (replicate n Record_success)) = 0"
proof (induction n arbitrary: s)
  case 0
  then show ?case by simp
next
  case (Suc n)
  have "error_count (record_success s) = 0"
    by (simp add: record_success_def Let_def)
  with Suc.IH [of "record_success s"] show ?case
    by (cases n) (simp_all add: run_calls_Cons run_calls_Nil)
qed

lemma record_success_at_14:
  "success_count s = 14 \<Longrightarrow>
   current_delay (record_success s) = max (base_delay s) (current_delay s * 0.9)
   \<and> base_delay (record_success s) = base_delay s
   \<and> success_count (record_success s) = 0"
  by (simp add: record_success_def Let_def)

lemma success_streak_general:
  assumes "0 \<le> success_count s" and "success_count s < 15"
  shows "current_delay (run_calls s (replicate 15 Record_success))
           = max (base_delay s) (current_delay s * 0.9)
       \<and> success_count (run_calls s (replicate 15 Record_success)) = success_count s
       \<and> error_count (run_calls s (replicate 15 Record_success)) = 0"
proof -
  define k where "k = nat (success_count s)"
  define j where "j = 14 - k"
  have k: "success_count s = int k" "k + j = 14"
    using assms by (simp_all add: k_def j_def)
  let ?a = "run_calls s (replicate j Record_success)"
  let ?b = "record_success ?a"
  have split: "replicate 15 Record_success
      = replicate j Record_success @ Record_success # replicate k Record_success"
  proof -
    have "(15::nat) = j + Suc k" using k by simp
    then show ?thesis
      by (simp only: replicate_add replicate_Suc)
  qed
  have run: "run_calls s (replicate 15 Record_success)
      = run_calls ?b (replicate k Record_success)"
    by (simp only: split run_calls_append run_calls_Cons apply_call.simps)
  have a: "current_delay ?a = current_delay s" "base_delay ?a = base_delay s"
    "success_count ?a = 14"
    using success_streak_below [of s j] assms k by simp_all
  have b: "current_delay ?b = max (base_delay s) (current_delay s * 0.9)"
    "base_delay ?b = base_delay s" "success_count ?b = 0"
    using record_success_at_14 [OF a(3)] a by simp_all
  have c: "current_delay (run_calls ?b (replicate k Record_success)) = current_delay ?b"
    "success_count (run_calls ?b (replicate k Record_success)) = int k"
    using success_streak_below [of ?b k] b k by simp_all
  have "error_count (run_calls s (replicate 15 Record_success)) = 0"
    by (rule success_streak_error_count) simp
  with run b c k show ?thesis by simp
qed

text \<open>
  C3 (as amended). From any throttle state whose success-streak counter \<open>k\<close>
  satisfies \<open>0 \<le> k < 15\<close> (every reachable state does), after exactly 15
  consecutive \<open>record_success\<close> calls the current delay equals
  \<open>max floor (0.9 * previous delay)\<close>, the error streak is 0 and the
  success-streak counter is \<open>k\<close> again; so it is 0 when the 15 calls start from a
  streak of 0.
\<close>

theorem success_streak_decay:
  assumes "0 \<le> success_count s" and "success_count s < 15"
  shows "current_delay (run_calls s (replicate 15 Record_success))
           = max (base_delay s) (current_delay s * 0.9)
       \<and> success_count (run_calls s (replicate 15 Record_success)) = success_count s
       \<and> error_count (run_calls s (replicate 15 Record_success)) = 0
       \<and> (success_count s = 0 \<longrightarrow>
            success_count (run_calls s (replicate 15 Record_success)) = 0)"
  using success_streak_general [OF assms] by simp

theorem success_streak_decay_witness:
  "0 \<le> success_count (SmartRateLimiter 0.8 6\<lparr>current_delay := 2\<rparr>)
   \<and> success_count (SmartRateLimiter 0.8 6\<lparr>current_delay := 2\<rparr>) < 15
   \<and> current_delay (run_calls (SmartRateLimiter 0.8 6\<lparr>current_delay := 2\<rparr>)
        (replicate 15 Record_success)) = 1.8
   \<and> success_count (run_calls (SmartRateLimiter 0.8 6\<lparr>current_delay := 2\<rparr>)
        (replicate 15 Record_success)) = 0"
  using success_streak_decay [of "SmartRateLimiter 0.8 6\<lparr>current_delay := 2\<rparr>"]
  by (simp add: SmartRateLimiter_def)

text \<open>
  The claim as stated (from any state, the counter is 0 afterwards) fails in the state
  reached by five successes: fifteen more successes decay the delay once, after the
  tenth of them, and leave the counter at 5.
\<close>

theorem success_streak_counter_counterexample:
  "success_count (run_calls (SmartRateLimiter 0.8 6) (replicate 5 Record_success)) = 5
   \<and> success_count
        (run_calls (run_calls (SmartRateLimiter 0.8 6) (replicate 5 Record_success))
           (replicate 15 Record_success)) = 5"
proof -
  let ?s5 = "run_calls (SmartRateLimiter 0.8 6) (replicate 5 Record_success)"
  have five: "success_count ?s5 = 5"
    using success_streak_below [of "SmartRateLimiter 0.8 6" 5]
    by (simp add: SmartRateLimiter_def)
  then have "success_count (run_calls ?s5 (replicate 15 Record_success)) = success_count ?s5"
    using success_streak_general [of ?s5] by simp
  with five show ?thesis by simp
qed

text \<open>
  C4. In every throttle state, whatever the two streak counters are, one
  \<open>record_error\<close> call with status 429 sets the current delay to
  \<open>min ceiling (2 * previous delay)\<close>; the factor 1.2 of the generic path is not
  applied. The error streak grows by one and the success streak is reset.
\<close>

theorem rate_limited_doubles:
  "current_delay (record_error (Some 429) s) = min (max_delay s) (current_delay s * 2)
   \<and> error_count (record_error (Some 429) s) = error_count s + 1
   \<and> success_count (record_error (Some 429) s) = 0
   \<and> base_delay (record_error (Some 429) s) = base_delay s
   \<and> max_delay (record_error (Some 429) s) = max_delay s"
  by (simp add: record_error_def Let_def)

theorem rate_limited_doubles_witness:
  "current_delay (record_error (Some 429)
      (SmartRateLimiter 0.8 6\<lparr>current_delay := 1, error_count := 7\<rparr>)) = 2
   \<and> current_delay (record_error (Some 429)
      (SmartRateLimiter 0.8 6\<lparr>current_delay := 4, success_count := 9\<rparr>)) = 6"
  using rate_limited_doubles [of "SmartRateLimiter 0.8 6\<lparr>current_delay := 1, error_count := 7\<rparr>"]
    rate_limited_doubles [of "SmartRateLimiter 0.8 6\<lparr>current_delay := 4, success_count := 9\<rparr>"]
  by (simp add: SmartRateLimiter_def)

section \<open>Properties of the session pool\<close>

lemma user_agents_distinct: "length user_agents = 4 \<and> distinct user_agents"
  by (simp add: user_agents_def)

lemma sessions_length: "length (sessions (RotatingSessionManager n)) = nat n"
  by (simp add: RotatingSessionManager_def)

lemma session_user_agent:
  "i < nat n \<Longrightarrow>
   user_agent (sessions (RotatingSessionManager n) ! i) = Some (user_agents ! (i mod 4))"
  using user_agents_distinct
  by (simp add: RotatingSessionManager_def user_agent_def new_session_def)

lemma after_calls_cursor:
  "current_session m < length (sessions m) \<Longrightarrow>
   after_calls k m =
     Inr (m\<lparr>current_session := (current_session m + k) mod length (sessions m)\<rparr>)"
proof (induction k arbitrary: m)
  case 0
  then show ?case by simp
next
  case (Suc k)
  let ?n = "length (sessions m)"
  let ?m' = "m\<lparr>current_session := (current_session m + 1) mod ?n\<rparr>"
  from Suc.prems have pos: "0 < ?n" by linarith
  have step: "get_session m = Inr (sessions m ! current_session m, ?m')"
    using Suc.prems by (simp add: get_session_def)
  have "current_session ?m' < length (sessions ?m')"
    using pos by simp
  from Suc.IH [OF this]
  have "after_calls k ?m' =
      Inr (m\<lparr>current_session := ((current_session m + 1) mod ?n + k) mod ?n\<rparr>)"
    by simp
  moreover have "((current_session m + 1) mod ?n + k) mod ?n = (current_session m + Suc k) mod ?n"
    by (simp add: mod_add_left_eq)
  ultimately show ?case using step by simp
qed

lemma round_robin:
  assumes "0 < n"
  shows "\<exists>m. after_calls k (RotatingSessionManager n) = Inr m
       \<and> get_session m = Inr (sessions (RotatingSessionManager n) ! (k mod nat n),
                              m\<lparr>current_session := Suc k mod nat n\<rparr>)"
proof -
  let ?M = "RotatingSessionManager n"
  have len: "length (sessions ?M) = nat n" by (rule sessions_length)
  have cur: "current_session ?M = 0" by (simp add: RotatingSessionManager_def)
  have "current_session ?M < length (sessions ?M)" using assms len cur by simp
  from after_calls_cursor [OF this, of k]
  have a: "after_calls k ?M = Inr (?M\<lparr>current_session := k mod nat n\<rparr>)"
    using len cur by simp
  have "get_session (?M\<lparr>current_session := k mod nat n\<rparr>) =
      Inr (sessions ?M ! (k mod nat n),
           ?M\<lparr>current_session := k mod nat n\<rparr>\<lparr>current_session := Suc k mod nat n\<rparr>)"
    using assms len by (simp add: get_session_def mod_Suc_eq)
  with a show ?thesis by blast
qed

lemma init_session_manager:
  "session_manager (OptimizedAvitoScraper url name workers fs) = RotatingSessionManager workers"
  by (simp add: OptimizedAvitoScraper_def load_progress_def Let_def split: option.split)

text \<open>
  C10. The pool is built from 4 distinct user-agent strings, assigned cyclically. In a
  pool of more than 4 sessions, session \<open>i\<close> carries user agent number \<open>i mod 4\<close>,
  the same as session \<open>i mod 4\<close>; sessions 0 and 4 share one, and the orchestrator
  builds its pool with one session per worker (7 in the main program). Assignment is
  round-robin over the whole pool: after \<open>k\<close> calls, \<open>get_session\<close> hands out
  session \<open>k mod n\<close> and moves the cursor to \<open>(k + 1) mod n\<close>.
\<close>

theorem user_agent_wraparound:
  assumes "4 < n" and "i < nat n"
  shows "length user_agents = 4 \<and> distinct user_agents
       \<and> length (sessions (RotatingSessionManager n)) = nat n
       \<and> user_agent (sessions (RotatingSessionManager n) ! i) = Some (user_agents ! (i mod 4))
       \<and> user_agent (sessions (RotatingSessionManager n) ! i)
           = user_agent (sessions (RotatingSessionManager n) ! (i mod 4))
       \<and> user_agent (sessions (RotatingSessionManager n) ! 4)
           = user_agent (sessions (RotatingSessionManager n) ! 0)
       \<and> (\<exists>m. after_calls k (RotatingSessionManager n) = Inr m
             \<and> get_session m = Inr (sessions (RotatingSessionManager n) ! (k mod nat n),
                                    m\<lparr>current_session := Suc k mod nat n\<rparr>))
       \<and> session_manager (OptimizedAvitoScraper url name 7 fs) = RotatingSessionManager 7"
proof -
  have small: "i mod 4 < nat n" "4 < nat n" "0 < nat n" "0 < n"
    using assms by simp_all
  have "user_agent (sessions (RotatingSessionManager n) ! (i mod 4)) = Some (user_agents ! (i mod 4))"
    using session_user_agent [OF small(1)] by simp
  moreover have "user_agent (sessions (RotatingSessionManager n) ! 4) = Some (user_agents ! 0)"
    using session_user_agent [OF small(2)] by simp
  moreover have "user_agent (sessions (RotatingSessionManager n) ! 0) = Some (user_agents ! 0)"
    using session_user_agent [OF small(3)] by simp
  ultimately show ?thesis
    using user_agents_distinct sessions_length [of n] session_user_agent [OF assms(2)]
      round_robin [OF small(4), of k] init_session_manager [of url name 7 fs]
    by simp
qed

theorem user_agent_wraparound_witness:
  "(4::int) < 7 \<and> (5::nat) < nat 7
   \<and> user_agent (sessions (RotatingSessionManager 7) ! 5)
       = user_agent (sessions (RotatingSessionManager 7) ! (5 mod 4))
   \<and> user_agent (sessions (RotatingSessionManager 7) ! 4)
       = user_agent (sessions (RotatingSessionManager 7) ! 0)
   \<and> (\<exists>m. after_calls 9 (RotatingSessionManager 7) = Inr m
         \<and> get_session m = Inr (sessions (RotatingSessionManager 7) ! (9 mod nat 7),
                                m\<lparr>current_session := Suc 9 mod nat 7\<rparr>))"
proof -
  have a: "(4::int) < 7" and b: "(5::nat) < nat 7" by simp_all
  from user_agent_wraparound [OF a b, of 9 "[]" "[]" Map.empty] a b
  show ?thesis by blast
qed

section \<open>Properties of fetching\<close>

lemma attempts_200:
  assumes "net (length (requests_made st)) session url = Got r" and "status_code r = 200"
  shows "attempts net session url (Suc n) st =
    (Some r, st\<lparr>requests_made := requests_made st @ [url],
                 rate_limiter := record_success (rate_limiter st)\<rparr>)"
  using assms by (simp add: Let_def)

lemma attempts_other:
  assumes "net (length (requests_made st)) session url = Got r" and "status_code r \<noteq> 200"
  shows "attempts net session url (Suc n) st =
    attempts net session url n
      (st\<lparr>requests_made := requests_made st @ [url],
          rate_limiter := record_error (Some (status_code r)) (rate_limiter st)\<rparr>)"
  using assms by (simp add: Let_def)

lemma fresh_scraper_fields:
  "get_session (session_manager fresh_scraper) =
     Inr (new_session (user_agents ! 0), (session_manager fresh_scraper)\<lparr>current_session := 1\<rparr>)"
  "requests_made fresh_scraper = []"
  "rate_limiter fresh_scraper = SmartRateLimiter 0.8 6"
  "processed_urls fresh_scraper = {}"
  by (simp_all add: fresh_scraper_def OptimizedAvitoScraper_def load_progress_def Let_def
      RotatingSessionManager_def get_session_def)

text \<open>
  C2 (as amended). For every fetch attempt of \<open>make_request\<close> whose response has
  status code exactly 200, the attempt records a success on the throttle and returns
  that response at once: one request is added to the log and no further attempt is
  made. A response with any other status, the other 2xx codes included, records an
  error with that status and the loop goes on with the attempts that are left.
\<close>

theorem success_is_status_200:
  assumes "net (length (requests_made st)) session url = Got r"
  shows "(status_code r = 200 \<longrightarrow>
            attempts net session url (Suc n) st =
              (Some r, st\<lparr>requests_made := requests_made st @ [url],
                           rate_limiter := record_success (rate_limiter st)\<rparr>))
       \<and> (status_code r \<noteq> 200 \<longrightarrow>
            attempts net session url (Suc n) st =
              attempts net session url n
                (st\<lparr>requests_made := requests_made st @ [url],
                    rate_limiter := record_error (Some (status_code r)) (rate_limiter st)\<rparr>))
       \<and> (status_code r = 200 \<longrightarrow> get_session (session_manager st) = Inr (session, m) \<longrightarrow>
            make_request net url (Suc n) st =
              Inr (Some r, st\<lparr>session_manager := m,
                               requests_made := requests_made st @ [url],
                               rate_limiter := record_success (rate_limiter st)\<rparr>))"
proof (intro conjI impI)
  assume "status_code r = 200"
  with assms show "attempts net session url (Suc n) st =
      (Some r, st\<lparr>requests_made := requests_made st @ [url],
                   rate_limiter := record_success (rate_limiter st)\<rparr>)"
    by (rule attempts_200)
next
  assume "status_code r \<noteq> 200"
  with assms show "attempts net session url (Suc n) st =
      attempts net session url n
        (st\<lparr>requests_made := requests_made st @ [url],
            rate_limiter := record_error (Some (status_code r)) (rate_limiter st)\<rparr>)"
    by (rule attempts_other)
next
  assume ok: "status_code r = 200" and s: "get_session (session_manager st) = Inr (session, m)"
  have "net (length (requests_made (st\<lparr>session_manager := m\<rparr>))) session url = Got r"
    using assms by simp
  from attempts_200 [where net = net and st = "st\<lparr>session_manager := m\<rparr>"
      and session = session and url = url and r = r and n = n, OF this ok] s
  show "make_request net url (Suc n) st =
      Inr (Some r, st\<lparr>session_manager := m,
                       requests_made := requests_made st @ [url],
                       rate_limiter := record_success (rate_limiter st)\<rparr>)"
    by (simp add: make_request_def)
qed

theorem success_is_status_200_witness:
  "always 200 (length (requests_made fresh_scraper)) (new_session (user_agents ! 0))
      (str ''https://www.avito.ma/x'') = Got (Response 200 empty_page)
   \<and> status_code (Response 200 empty_page) = 200
   \<and> get_session (session_manager fresh_scraper)
       = Inr (new_session (user_agents ! 0), (session_manager fresh_scraper)\<lparr>current_session := 1\<rparr>)
   \<and> make_request (always 200) (str ''https://www.avito.ma/x'') 3 fresh_scraper =
       Inr (Some (Response 200 empty_page),
            fresh_scraper\<lparr>session_manager := (session_manager fresh_scraper)\<lparr>current_session := 1\<rparr>,
              requests_made := [str ''https://www.avito.ma/x''],
              rate_limiter := record_success (SmartRateLimiter 0.8 6)\<rparr>)"
proof -
  have a: "always 200 (length (requests_made fresh_scraper)) (new_session (user_agents ! 0))
      (str ''https://www.avito.ma/x'') = Got (Response 200 empty_page)"
    by (simp add: always_def)
  from success_is_status_200 [where net = "always 200" and st = fresh_scraper
      and session = "new_session (user_agents ! 0)" and url = "str ''https://www.avito.ma/x''"
      and r = "Response 200 empty_page" and n = 2
      and m = "(session_manager fresh_scraper)\<lparr>current_session := 1\<rparr>", OF a]
    a fresh_scraper_fields
  show ?thesis by (simp add: numeral_3_eq_3)
qed

text \<open>
  The claim as stated fails for a 2xx status other than 200: when every request is
  answered with 201, \<open>make_request\<close> makes all three attempts, records three errors
  and no success, and returns nothing.
\<close>

theorem status_201_counterexample:
  "(case make_request (always 201) (str ''https://www.avito.ma/x'') 3 fresh_scraper of
      Inl e \<Rightarrow> False
    | Inr (response, st) \<Rightarrow>
        response = None
        \<and> requests_made st = [str ''https://www.avito.ma/x'', str ''https://www.avito.ma/x'',
                               str ''https://www.avito.ma/x'']
        \<and> error_count (rate_limiter st) = 3
        \<and> success_count (rate_limiter st) = 0)"
  by (simp add: make_request_def fresh_scraper_fields numeral_3_eq_3 always_def Let_def
      record_error_def SmartRateLimiter_def)

section \<open>Properties of the resume ledger\<close>













section \<open>Properties of the sink header\<close>

lemma readline_empty: "readline data = [] \<longleftrightarrow> data = []"
  by (induction data rule: readline.induct) auto

text \<open>The jumia scraper writes the header exactly when the sink is missing or empty,
  and otherwise leaves the file system as it is.\<close>

lemma write_header_if_needed_spec:
  "write_header_if_needed path fs =
     (if fs path = None \<or> fs path = Some [] then fs(path \<mapsto> writeheader True) else fs)"
  by (auto simp: write_header_if_needed_def readline_empty split: option.splits)

text \<open>The avito scraper writes the header exactly when the sink is missing.\<close>

lemma init_sink:
  "files (OptimizedAvitoScraper url name workers fs) (name @ str ''_products_from_avito.csv'')
     = (case fs (name @ str ''_products_from_avito.csv'') of
          None \<Rightarrow> Some (writeheader False)
        | Some data \<Rightarrow> Some data)"
  "filename (OptimizedAvitoScraper url name workers fs) = name @ str ''_products_from_avito.csv''"
  by (simp_all add: OptimizedAvitoScraper_def load_progress_def Let_def split: option.split)

text \<open>
  C9, at the failing input: the avito scraper is constructed while its sink file
  exists and is empty. The file is still empty afterwards, so no header row has been
  written, whereas \<open>write_header_if_needed\<close> of the jumia scraper writes its header
  into an existing empty file (and the avito scraper does write one when the file is
  missing).
\<close>

theorem avito_empty_sink_gets_no_header:
  "files (OptimizedAvitoScraper (str ''https://www.avito.ma/fr/maroc/ordinateurs_bureau'')
            (str ''desktop'') 7 [str ''desktop_products_from_avito.csv'' \<mapsto> []])
     (str ''desktop_products_from_avito.csv'') = Some []
   \<and> files (OptimizedAvitoScraper (str ''https://www.avito.ma/fr/maroc/ordinateurs_bureau'')
            (str ''desktop'') 7 Map.empty)
     (str ''desktop_products_from_avito.csv'')
       = Some (str ''Title,Price,Condition,Description,Post Date,URL,Scraped at'' @ [CR, LF])
   \<and> write_header_if_needed (str ''computers_products_from_jumia.csv'')
        [str ''computers_products_from_jumia.csv'' \<mapsto> []]
        (str ''computers_products_from_jumia.csv'')
       = Some (writeheader True)
   \<and> writeheader True \<noteq> []"
proof -
  have "files (OptimizedAvitoScraper (str ''https://www.avito.ma/fr/maroc/ordinateurs_bureau'')
            (str ''desktop'') 7 [str ''desktop_products_from_avito.csv'' \<mapsto> []])
     (str ''desktop'' @ str ''_products_from_avito.csv'') = Some []"
    by (simp only: init_sink) simp
  moreover have "files (OptimizedAvitoScraper (str ''https://www.avito.ma/fr/maroc/ordinateurs_bureau'')
            (str ''desktop'') 7 Map.empty)
     (str ''desktop'' @ str ''_products_from_avito.csv'') = Some (writeheader False)"
    by (simp only: init_sink) simp
  moreover have "writeheader False
      = str ''Title,Price,Condition,Description,Post Date,URL,Scraped at'' @ [CR, LF]"
    by (simp add: writeheader_def fieldnames_def)
  moreover have "writeheader True \<noteq> []"
    by (simp add: writeheader_def)
  ultimately show ?thesis
    by (simp add: write_header_if_needed_spec)
qed

section \<open>Properties of description extraction\<close>

lemma first_accepted_find:
  "first_accepted lib elements = find (accepts lib) (map el_get_text_strip elements)"
  by (induction elements) simp_all

lemma find_append_case:
  "find P (xs @ ys) = (case find P xs of Some x \<Rightarrow> Some x | None \<Rightarrow> find P ys)"
  by (induction xs) simp_all

lemma strategy1_find:
  "strategy1 lib page selectors =
     find (accepts lib)
       (concat (map (\<lambda>selector. map el_get_text_strip (soup_select page selector)) selectors))"
  by (induction selectors) (simp_all add: first_accepted_find find_append_case split: option.split)

lemma strategy1_blocks:
  "strategy1 lib (page\<lparr>soup_find_all := blocks\<rparr>) selectors = strategy1 lib page selectors"
  by (induction selectors) (simp_all split: option.split)

lemma strategy1_accepts:
  "strategy1 lib page selectors = Some d \<Longrightarrow> accepts lib d"
  by (auto simp: strategy1_find find_Some_iff)

lemma strategy1_wins:
  assumes "strategy1 lib page desc_selectors = Some d"
  shows "extract_description_improved lib page =
           (if clean_up lib d \<noteq> [] then clean_up lib d else str ''N/A'')"
proof -
  have "accepts lib d" using assms by (rule strategy1_accepts)
  then have "d \<noteq> []" by (auto simp: accepts_def)
  with assms show ?thesis
    by (simp add: extract_description_improved_def)
qed

text \<open>
  C7 (as amended). The first strategy returns the first text, in the order of the
  selectors and of the elements each one matches, that passes its test, and a text
  passes only if it is longer than 50 characters (at least 51) and contains one of
  the emoji or, upper-cased, one of the keywords; a text of exactly 50 characters is
  not accepted. Whenever the first strategy accepts a text, the result is that text
  cleaned up, whatever blocks the page has: the scored free-text strategy has no part
  in it.
\<close>

theorem strategy1_acceptance:
  "strategy1 lib page desc_selectors =
     find (accepts lib)
       (concat (map (\<lambda>selector. map el_get_text_strip (soup_select page selector))
          desc_selectors))
   \<and> (accepts lib t \<longleftrightarrow>
        51 \<le> length t \<and>
        (list_ex (\<lambda>emoji. isin emoji t) strategy1_emojis \<or>
         list_ex (\<lambda>spec. isin spec (str_upper lib t)) strategy1_specs))
   \<and> (length t = 50 \<longrightarrow> \<not> accepts lib t)
   \<and> (strategy1 lib page desc_selectors = Some d \<longrightarrow>
        extract_description_improved lib page =
          (if clean_up lib d \<noteq> [] then clean_up lib d else str ''N/A'')
        \<and> extract_description_improved lib (page\<lparr>soup_find_all := blocks\<rparr>) =
            extract_description_improved lib page)"
proof (intro conjI impI)
  show "strategy1 lib page desc_selectors =
     find (accepts lib)
       (concat (map (\<lambda>selector. map el_get_text_strip (soup_select page selector))
          desc_selectors))"
    by (rule strategy1_find)
next
  show "accepts lib t \<longleftrightarrow>
        51 \<le> length t \<and>
        (list_ex (\<lambda>emoji. isin emoji t) strategy1_emojis \<or>
         list_ex (\<lambda>spec. isin spec (str_upper lib t)) strategy1_specs)"
    by (auto simp: accepts_def)
next
  assume "length t = 50"
  then show "\<not> accepts lib t" by (simp add: accepts_def)
next
  assume d: "strategy1 lib page desc_selectors = Some d"
  then show "extract_description_improved lib page =
      (if clean_up lib d \<noteq> [] then clean_up lib d else str ''N/A'')"
    by (rule strategy1_wins)
next
  assume d: "strategy1 lib page desc_selectors = Some d"
  then have "strategy1 lib (page\<lparr>soup_find_all := blocks\<rparr>) desc_selectors = Some d"
    by (simp only: strategy1_blocks)
  from strategy1_wins [OF this] strategy1_wins [OF d]
  show "extract_description_improved lib (page\<lparr>soup_find_all := blocks\<rparr>) =
      extract_description_improved lib page"
    by simp
qed

lemma text_lengths: "length text50 = 50" "length text51 = 51"
  by (simp_all add: text50_def text51_def)

lemma text_upper:
  "str_upper ascii_lib text50 = str ''ORDINATEUR PORTABLE A VENDRE, PRIX A DISCUTER VITE''"
  "str_upper ascii_lib text51 = str ''ORDINATEUR PORTABLE A VENDRE, PRIX A DISCUTER VITE.''"
  by (simp_all add: text50_def text51_def ascii_lib_def)

lemma text_prix:
  "isin (str ''PRIX'') (str_upper ascii_lib text50)"
  "isin (str ''PRIX'') (str_upper ascii_lib text51)"
  by (simp_all add: text_upper)

lemma accepts_text51: "accepts ascii_lib text51"
  using text_prix(2) by (simp add: accepts_def text_lengths strategy1_specs_def)

lemma strategy1_text51: "strategy1 ascii_lib (ad_page text51) desc_selectors = Some text51"
  using accepts_text51 by (simp add: desc_selectors_def ad_page_def Let_def)

lemma no_patterns: "foldl (\<lambda>d pattern. d) x patterns = x"
  by (induction patterns) simp_all

lemma clean_up_text51: "clean_up ascii_lib text51 = text51"
proof -
  have "strip text51 = text51"
    by (simp add: text51_def text50_def strip_def lstrip_def rstrip_def isspace_def)
  then show ?thesis
    by (simp add: clean_up_def ascii_lib_def Let_def text_lengths no_patterns)
qed

lemma no_accept_text50: "\<not> accepts ascii_lib text50"
  by (simp add: accepts_def text_lengths)

lemma strategy1_text50: "strategy1 ascii_lib (ad_page text50) desc_selectors = None"
  using no_accept_text50 by (simp add: desc_selectors_def ad_page_def Let_def)

lemma upper_literal:
  "str_upper ascii_lib s = map (\<lambda>c. if 97 \<le> c \<and> c \<le> 122 then c - 32 else c) s"
  by (simp add: ascii_lib_def)

lemma score_emoji: "filter (\<lambda>emoji. isin emoji text50) emoji_indicators = []"
  by (simp add: emoji_indicators_def text50_def)

lemma score_tech:
  "filter (\<lambda>spec. isin (str_upper ascii_lib spec) (str_upper ascii_lib text50)) tech_specs = []"
  by (simp add: text50_def tech_specs_def upper_literal)

lemma score_terms:
  "filter (\<lambda>term. isin (str_upper ascii_lib term) (str_upper ascii_lib text50)) computer_terms = []"
  by (simp add: text50_def computer_terms_def upper_literal)

lemma score_nav:
  "filter (\<lambda>nav. isin (str_upper ascii_lib nav) (str_upper ascii_lib text50)) nav_elements = []"
  by (simp add: text50_def nav_elements_def upper_literal)

lemma score_delivery:
  "\<not> isin (str ''LIVRAISON'') (str_upper ascii_lib text50)"
  "\<not> isin (str ''CONTACTEZ'') (str_upper ascii_lib text50)"
  by (simp_all add: text_upper)

lemma score_text50: "score ascii_lib text50 = 2"
  using text_prix(1) score_delivery
  by (simp add: score_def Let_def score_emoji score_tech score_terms score_nav)

lemma strategy2_text50: "strategy2 ascii_lib (ad_page text50) = None"
  by (simp add: strategy2_def ad_page_def Let_def text_lengths score_text50)

theorem strategy1_acceptance_witness:
  "length text51 = 51
   \<and> accepts ascii_lib text51
   \<and> length text50 = 50 \<and> \<not> accepts ascii_lib text50
   \<and> strategy1 ascii_lib (ad_page text51) desc_selectors = Some text51
   \<and> extract_description_improved ascii_lib (ad_page text51) = text51
   \<and> extract_description_improved ascii_lib ((ad_page text51)\<lparr>soup_find_all := (\<lambda>names. [])\<rparr>)
       = text51"
proof -
  have ne: "text51 \<noteq> []" by (simp add: text51_def)
  from strategy1_acceptance [of ascii_lib "ad_page text51" text50 text51 "\<lambda>names. []"]
    strategy1_text51 clean_up_text51 ne text_lengths accepts_text51
  show ?thesis by simp
qed

text \<open>
  The claim as stated fails at a qualifying text of exactly 50 characters: it contains
  the keyword PRIX, yet the first strategy does not accept it. The second strategy gives
  it 2 points, below its threshold of 3, so the description of the page is the
  sentinel.
\<close>

theorem text_of_50_counterexample:
  "length text50 = 50
   \<and> isin (str ''PRIX'') (str_upper ascii_lib text50)
   \<and> strategy1 ascii_lib (ad_page text50) desc_selectors = None
   \<and> score ascii_lib text50 = 2
   \<and> extract_description_improved ascii_lib (ad_page text50) = str ''N/A''"
  using strategy1_text50 strategy2_text50 score_text50 text_lengths(1) text_prix(1)
  by (simp add: extract_description_improved_def)

section \<open>Properties of record extraction\<close>

lemma first_price_missing:
  "\<forall>selector \<in> set selectors. soup_select page selector = [] \<Longrightarrow>
   first_price page selectors = str ''N/A''"
  by (induction selectors) (simp_all add: select_one_def)

lemma description_missing:
  "strategy1 lib page desc_selectors = None \<Longrightarrow> strategy2 lib page = None \<Longrightarrow>
   extract_description_improved lib page = str ''N/A''"
  by (simp add: extract_description_improved_def)

lemma extract_info_fields:
  "extract_info lib net now url st = Inr (Some p, st') \<Longrightarrow>
   \<exists>response. p = page_fields lib now url (parsed response)"
  by (auto simp: extract_info_def split: if_splits sum.splits prod.splits option.splits)

text \<open>
  C8 (as amended). Every record has all seven fields. In a record of the avito
  scraper, a title, price, description or post date that cannot be read from the
  page is the sentinel \<^verbatim>\<open>N/A\<close> (the post date also when the time element lacks
  its \<^verbatim>\<open>datetime\<close> attribute), while a missing condition is the different
  placeholder \<^verbatim>\<open>Not specified\<close>. In a record of the jumia scraper, a missing title,
  price or description is \<^verbatim>\<open>N/A\<close>, the condition is always \<^verbatim>\<open>New\<close> and the
  post date is the current date.
\<close>

theorem missing_field_defaults:
  "(soup_find page (str ''h1'') None = None \<longrightarrow>
      Title (page_fields lib now url page) = str ''N/A'')
   \<and> ((\<forall>selector \<in> set price_selectors. soup_select page selector = []) \<longrightarrow>
      Price (page_fields lib now url page) = str ''N/A'')
   \<and> (strategy1 lib page desc_selectors = None \<longrightarrow> strategy2 lib page = None \<longrightarrow>
      Description (page_fields lib now url page) = str ''N/A'')
   \<and> (soup_select page (str ''span.iKguVF time'') = [] \<longrightarrow>
      Post_Date (page_fields lib now url page) = str ''N/A'')
   \<and> (soup_select page (str ''span.iKguVF time'') = tag # tags \<longrightarrow>
      el_attrs tag (str ''datetime'') = None \<longrightarrow>
      Post_Date (page_fields lib now url page) = str ''N/A'')
   \<and> (soup_select page (str ''div.kuofIS span.fjZBup'') = [] \<longrightarrow>
      Condition (page_fields lib now url page) = str ''Not specified'')
   \<and> URL (page_fields lib now url page) = url
   \<and> Scraped_at (page_fields lib now url page) = now
   \<and> (extract_info lib net now url st = Inr (Some p, st') \<longrightarrow>
      (\<exists>response. p = page_fields lib now url (parsed response)))
   \<and> (soup_find page (str ''h1'') (Some (str ''-fs20 -pts -pbxs'')) = None \<longrightarrow>
      Title (product_data today now url page) = str ''N/A'')
   \<and> (soup_find page (str ''span'') (Some (str ''-b -ubpt -tal -fs24 -prxs'')) = None \<longrightarrow>
      Price (product_data today now url page) = str ''N/A'')
   \<and> (soup_find page (str ''div'') (Some (str ''markup -pam'')) = None \<longrightarrow>
      Description (product_data today now url page) = str ''N/A'')
   \<and> Condition (product_data today now url page) = str ''New''
   \<and> Post_Date (product_data today now url page) = today
   \<and> URL (product_data today now url page) = url
   \<and> Scraped_at (product_data today now url page) = now"
proof (intro conjI impI)
  assume "\<forall>selector \<in> set price_selectors. soup_select page selector = []"
  then show "Price (page_fields lib now url page) = str ''N/A''"
    using first_price_missing [of price_selectors page] by (simp add: page_fields_def)
next
  assume "strategy1 lib page desc_selectors = None" "strategy2 lib page = None"
  then show "Description (page_fields lib now url page) = str ''N/A''"
    using description_missing [of lib page] by (simp add: page_fields_def)
next
  assume "extract_info lib net now url st = Inr (Some p, st')"
  then show "\<exists>response. p = page_fields lib now url (parsed response)"
    by (rule extract_info_fields)
qed (simp_all add: page_fields_def select_one_def product_data_def Let_def replace_char_def
      CR_def LF_def)

lemma empty_page_description:
  "strategy1 lib empty_page desc_selectors = None" "strategy2 lib empty_page = None"
  by (simp_all add: desc_selectors_def empty_page_def strategy2_def)

lemma empty_page_prices:
  "\<forall>selector \<in> set price_selectors. soup_select empty_page selector = []"
  by (simp add: empty_page_def)

lemma extract_info_fresh:
  "\<exists>st'. extract_info lib (always 200) now url fresh_scraper =
     Inr (Some (page_fields lib now url empty_page), st')"
  by (simp add: extract_info_def fresh_scraper_fields make_request_def numeral_3_eq_3
      always_def Let_def)

theorem missing_field_defaults_witness:
  "soup_find empty_page (str ''h1'') None = None
   \<and> soup_select empty_page (str ''div.kuofIS span.fjZBup'') = []
   \<and> Title (page_fields ascii_lib clock product_url empty_page) = str ''N/A''
   \<and> Price (page_fields ascii_lib clock product_url empty_page) = str ''N/A''
   \<and> Description (page_fields ascii_lib clock product_url empty_page) = str ''N/A''
   \<and> Post_Date (page_fields ascii_lib clock product_url empty_page) = str ''N/A''
   \<and> Post_Date (page_fields ascii_lib clock product_url undated_page) = str ''N/A''
   \<and> Condition (page_fields ascii_lib clock product_url empty_page) = str ''Not specified''
   \<and> Title (product_data clock clock product_url empty_page) = str ''N/A''
   \<and> Price (product_data clock clock product_url empty_page) = str ''N/A''
   \<and> Description (product_data clock clock product_url empty_page) = str ''N/A''
   \<and> Condition (product_data clock clock product_url empty_page) = str ''New''"
proof -
  obtain st' where run: "extract_info ascii_lib (always 200) clock product_url fresh_scraper =
      Inr (Some (page_fields ascii_lib clock product_url empty_page), st')"
    using extract_info_fresh by blast
  have finds: "soup_find empty_page (str ''h1'') None = None"
    "soup_select empty_page (str ''div.kuofIS span.fjZBup'') = []"
    "soup_select empty_page (str ''span.iKguVF time'') = []"
    "soup_find empty_page (str ''h1'') (Some (str ''-fs20 -pts -pbxs'')) = None"
    "soup_find empty_page (str ''span'') (Some (str ''-b -ubpt -tal -fs24 -prxs'')) = None"
    "soup_find empty_page (str ''div'') (Some (str ''markup -pam'')) = None"
    by (simp_all add: empty_page_def)
  have undated: "soup_select undated_page (str ''span.iKguVF time'') =
      [\<lparr>el_text = str ''hier'', el_get_text_strip = str ''hier'',
        el_get_text_sep = str ''hier'', el_attrs = Map.empty\<rparr>]"
    "el_attrs \<lparr>el_text = str ''hier'', el_get_text_strip = str ''hier'',
        el_get_text_sep = str ''hier'', el_attrs = Map.empty\<rparr> (str ''datetime'') = None"
    by (simp_all add: undated_page_def Let_def)
  from missing_field_defaults [where page = empty_page and lib = ascii_lib and now = clock
      and url = product_url and today = clock and net = "always 200" and st = fresh_scraper
      and p = "page_fields ascii_lib clock product_url empty_page" and st' = st']
    missing_field_defaults [where page = undated_page and lib = ascii_lib and now = clock
      and url = product_url
      and tag = "\<lparr>el_text = str ''hier'', el_get_text_strip = str ''hier'',
        el_get_text_sep = str ''hier'', el_attrs = Map.empty\<rparr>" and tags = "[]"]
    run finds undated empty_page_description [of ascii_lib] empty_page_prices
  show ?thesis by simp
qed

text \<open>
  The claim as stated fails on a product page where nothing can be read: the record
  that \<open>extract_info\<close> returns has the title \<^verbatim>\<open>N/A\<close> but the condition
  \<^verbatim>\<open>Not specified\<close>.
\<close>

theorem condition_sentinel_counterexample:
  "(case extract_info ascii_lib (always 200) clock product_url fresh_scraper of
      Inr (Some p, st') \<Rightarrow>
        Title p = str ''N/A'' \<and> Price p = str ''N/A'' \<and> Description p = str ''N/A''
        \<and> Post_Date p = str ''N/A''
        \<and> Condition p = str ''Not specified'' \<and> Condition p \<noteq> Title p
    | _ \<Rightarrow> False)"
proof -
  obtain st' where run: "extract_info ascii_lib (always 200) clock product_url fresh_scraper =
      Inr (Some (page_fields ascii_lib clock product_url empty_page), st')"
    using extract_info_fresh by blast
  have "extract_description_improved ascii_lib empty_page = str ''N/A''"
    using empty_page_description [of ascii_lib] by (rule description_missing)
  moreover have "first_price empty_page price_selectors = str ''N/A''"
    using empty_page_prices by (rule first_price_missing)
  ultimately show ?thesis
    unfolding run by (simp add: page_fields_def select_one_def empty_page_def)
qed

section \<open>Properties of link discovery\<close>

















section \<open>Further properties\<close>

text \<open>
  X1. Recording a URL is idempotent: a second \<open>save_progress\<close> of the same URL
  changes neither the set in memory nor the ledger file, and after the first one the
  URL is in the set.
\<close>

theorem save_progress_idempotent:
  "save_progress url (save_progress url st) = save_progress url st
   \<and> url \<in> processed_urls (save_progress url st)"
  by (simp add: save_progress_def)

text \<open>
  X2. \<open>write_header_if_needed\<close> of the jumia scraper writes the quoted header row
  exactly when the file is missing or empty, and otherwise leaves the file system
  unchanged.
\<close>

theorem jumia_header_when_missing_or_empty:
  "write_header_if_needed path fs =
     (if fs path = None \<or> fs path = Some [] then fs(path \<mapsto> writeheader True) else fs)"
  by (rule write_header_if_needed_spec)

text \<open>
  X3. Constructing the avito scraper writes the header row into its sink exactly when
  the sink file is missing; an existing file, empty or not, keeps its contents.
\<close>

theorem avito_header_when_missing:
  "filename (OptimizedAvitoScraper url name workers fs) = name @ str ''_products_from_avito.csv''
   \<and> files (OptimizedAvitoScraper url name workers fs) (name @ str ''_products_from_avito.csv'')
       = (case fs (name @ str ''_products_from_avito.csv'') of
            None \<Rightarrow> Some (writeheader False)
          | Some data \<Rightarrow> Some data)"
  using init_sink [of url name workers fs] by (simp only: simp_thms)

end
